theory Spec2Isabelle
  imports Main
begin

section \<open>Python strings\<close>

text \<open>
  The packaging pipeline of Pyro (\<^verbatim>\<open>src/pyro/PackageManager.py\<close>) is embedded function by
  function. Python \<^verbatim>\<open>str\<close> values are \<^typ>\<open>string\<close> (lists of characters); the
  string methods the source calls are written out below. Paths follow \<^verbatim>\<open>posixpath\<close>:
  \<^verbatim>\<open>os.sep\<close> is \<^verbatim>\<open>/\<close>, \<^verbatim>\<open>os.curdir\<close> is \<^verbatim>\<open>.\<close>, \<^verbatim>\<open>os.pardir\<close> is \<^verbatim>\<open>..\<close> and
  \<^verbatim>\<open>os.path.normcase\<close> is the identity, which is the platform of every path the
  specification uses (\<^verbatim>\<open>/proj/src\<close>).
\<close>

definition startswith :: "string \<Rightarrow> string \<Rightarrow> bool" where
  \<comment> \<open>\<^verbatim>\<open>s.startswith(p)\<close>\<close>
  "startswith s p = (take (length p) s = p)"

definition endswith :: "string \<Rightarrow> string \<Rightarrow> bool" where
  \<comment> \<open>\<^verbatim>\<open>s.endswith(p)\<close>\<close>
  "endswith s p = (length p \<le> length s \<and> drop (length s - length p) s = p)"

fun contains :: "string \<Rightarrow> string \<Rightarrow> bool" where
  \<comment> \<open>\<^verbatim>\<open>sub in s\<close>: \<open>sub\<close> occurs in \<open>s\<close> as a contiguous substring\<close>
  "contains sub [] = (sub = [])"
| "contains sub (c # cs) = (startswith (c # cs) sub \<or> contains sub cs)"

fun replace_first :: "string \<Rightarrow> string \<Rightarrow> string \<Rightarrow> string" where
  \<comment> \<open>\<^verbatim>\<open>s.replace(old, new, 1)\<close>\<close>
  "replace_first old new [] = (if old = [] then new else [])"
| "replace_first old new (c # cs) =
     (if startswith (c # cs) old then new @ drop (length old) (c # cs)
      else c # replace_first old new cs)"

definition casefold_char :: "char \<Rightarrow> char" where
  "casefold_char c =
     (case map_of (zip ''ABCDEFGHIJKLMNOPQRSTUVWXYZ'' ''abcdefghijklmnopqrstuvwxyz'') c of
        Some l \<Rightarrow> l
      | None \<Rightarrow> c)"

definition casefold :: "string \<Rightarrow> string" where
  \<comment> \<open>\<^verbatim>\<open>s.casefold()\<close> on ASCII text: the characters of the model are bytes, and the
      case folding of the other Unicode letters is not modelled\<close>
  "casefold s = map casefold_char s"

fun split_on :: "char \<Rightarrow> string \<Rightarrow> string list" where
  \<comment> \<open>\<^verbatim>\<open>s.split(c)\<close> for a one-character separator\<close>
  "split_on c [] = [[]]"
| "split_on c (x # xs) =
     (if x = c then [] # split_on c xs
      else (case split_on c xs of
              [] \<Rightarrow> [[x]]
            | y # ys \<Rightarrow> (x # y) # ys))"

fun join_with :: "string \<Rightarrow> string list \<Rightarrow> string" where
  \<comment> \<open>\<^verbatim>\<open>sep.join(parts)\<close>\<close>
  "join_with sep [] = []"
| "join_with sep [p] = p"
| "join_with sep (p # q # ps) = p @ sep @ join_with sep (q # ps)"

definition rfind :: "char \<Rightarrow> string \<Rightarrow> int" where
  \<comment> \<open>\<^verbatim>\<open>s.rfind(c)\<close>: the index of the last occurrence, \<open>-1\<close> when there is none\<close>
  "rfind c s =
     (if c \<in> set s then int (length s) - 1 - int (length (takeWhile (\<lambda>x. x \<noteq> c) (rev s)))
      else - 1)"

definition digit_char :: "nat \<Rightarrow> char" where
  \<comment> \<open>the decimal digit for \<open>n mod 10\<close>\<close>
  "digit_char n = ''0123456789'' ! (n mod 10)"

fun str_of_nat :: "nat \<Rightarrow> string" where
  \<comment> \<open>the decimal text of an index, as an f-string prints it\<close>
  "str_of_nat n = (if n < 10 then [digit_char n] else str_of_nat (n div 10) @ [digit_char (n mod 10)])"

definition dquote :: "string \<Rightarrow> string" where
  \<comment> \<open>\<open>s\<close> between two double-quote characters\<close>
  "dquote s = [CHR 0x22] @ s @ [CHR 0x22]"

section \<open>The functions of \<^verbatim>\<open>os.path\<close> the source calls\<close>

definition sep :: string where "sep = ''/''"
definition curdir :: string where "curdir = ''.''"
definition pardir :: string where "pardir = ''..''"

definition isabs :: "string \<Rightarrow> bool" where
  "isabs s = startswith s sep"

definition join :: "string \<Rightarrow> string \<Rightarrow> string" where
  \<comment> \<open>\<^verbatim>\<open>os.path.join(a, b)\<close>; a call with three arguments is two nested joins\<close>
  "join a b =
     (if startswith b sep then b
      else if a = [] \<or> endswith a sep then a @ b
      else a @ sep @ b)"

definition normpath_step :: "nat \<Rightarrow> string list \<Rightarrow> string \<Rightarrow> string list" where
  \<comment> \<open>one round of the loop over the components in \<^verbatim>\<open>posixpath.normpath\<close>\<close>
  "normpath_step initial_slashes new_comps cmp =
     (if cmp = [] \<or> cmp = curdir then new_comps
      else if cmp \<noteq> pardir then new_comps @ [cmp]
      else if (initial_slashes = 0 \<and> new_comps = [])
              \<or> (new_comps \<noteq> [] \<and> last new_comps = pardir)
      then new_comps @ [cmp]
      else if new_comps \<noteq> [] then butlast new_comps
      else new_comps)"

definition normpath :: "string \<Rightarrow> string" where
  "normpath path =
     (if path = [] then curdir
      else
        let initial_slashes =
              (if startswith path sep then
                 (if startswith path (sep @ sep) \<and> \<not> startswith path (sep @ sep @ sep)
                  then 2 else 1)
               else 0);
            comps = foldl (normpath_step initial_slashes) [] (split_on (CHR ''/'') path);
            path' = concat (replicate initial_slashes sep) @ join_with sep comps
        in if path' = [] then curdir else path')"

definition splitext :: "string \<Rightarrow> string \<times> string" where
  \<comment> \<open>\<^verbatim>\<open>os.path.splitext\<close>: the extension starts at the last dot of the last component,
      and the leading dots of that component are not an extension\<close>
  "splitext p =
     (let sepIndex = rfind (CHR ''/'') p;
          dotIndex = rfind (CHR ''.'') p
      in if dotIndex > sepIndex
            \<and> list_ex (\<lambda>c. c \<noteq> CHR ''.'')
                 (take (nat (dotIndex - (sepIndex + 1))) (drop (nat (sepIndex + 1)) p))
         then (take (nat dotIndex) p, drop (nat dotIndex) p)
         else (p, []))"

definition rstrip_sep :: "string \<Rightarrow> string" where
  \<comment> \<open>\<^verbatim>\<open>s.rstrip('/')\<close>\<close>
  "rstrip_sep s = rev (dropWhile (\<lambda>c. c = CHR ''/'') (rev s))"

definition split :: "string \<Rightarrow> string \<times> string" where
  \<comment> \<open>\<^verbatim>\<open>os.path.split\<close>: everything up to the last slash, and what follows it\<close>
  "split p =
     (let i = nat (rfind (CHR ''/'') p + 1);
          head = take i p;
          tail = drop i p
      in if head \<noteq> [] \<and> list_ex (\<lambda>c. c \<noteq> CHR ''/'') head then (rstrip_sep head, tail)
         else (head, tail))"

definition dirname :: "string \<Rightarrow> string" where
  "dirname p = fst (split p)"

fun commonprefix :: "string list \<Rightarrow> string list \<Rightarrow> string list" where
  \<comment> \<open>\<^verbatim>\<open>os.path.commonprefix\<close> of two lists of components\<close>
  "commonprefix (x # xs) (y # ys) = (if x = y then x # commonprefix xs ys else [])"
| "commonprefix xs ys = []"

definition abspath :: "string \<Rightarrow> string \<Rightarrow> string" where
  \<comment> \<open>\<^verbatim>\<open>os.path.abspath\<close>, given the current working directory\<close>
  "abspath cwd path = (if isabs path then normpath path else normpath (join cwd path))"

datatype exc = PermissionError | FileNotFoundError | ValueError | OSError

definition relpath :: "string \<Rightarrow> string \<Rightarrow> string \<Rightarrow> exc + string" where
  \<comment> \<open>\<^verbatim>\<open>os.path.relpath(path, start)\<close>, given the current working directory; an empty
      \<open>path\<close> raises \<^verbatim>\<open>ValueError\<close>\<close>
  "relpath cwd path start =
     (if path = [] then Inl ValueError
      else
        let start_list = filter (\<lambda>x. x \<noteq> []) (split_on (CHR ''/'') (abspath cwd start));
            path_list = filter (\<lambda>x. x \<noteq> []) (split_on (CHR ''/'') (abspath cwd path));
            i = length (commonprefix start_list path_list);
            rel_list = replicate (length start_list - i) pardir @ drop i path_list
        in if rel_list = [] then Inr curdir
           else Inr (foldl join (hd rel_list) (tl rel_list)))"

section \<open>Shell patterns: \<^verbatim>\<open>fnmatch\<close>\<close>

text \<open>
  \<^verbatim>\<open>fnmatch.fnmatch(name, pat)\<close> compiles the pattern to a regular expression and matches
  the whole name against it. The model translates the pattern to a list of items and
  matches the name against the items: \<open>*\<close> stands for any text (the slash included),
  \<open>?\<close> for one character, \<open>[...]\<close> for a set of characters, and a \<open>[\<close> with no closing
  bracket for itself.
\<close>

datatype glob_item =
  STAR
  | ANY
  | LIT char
  | NEVER
  | CLASS bool "char list" "(char \<times> char) list"

fun chunk_walk :: "nat \<Rightarrow> string \<Rightarrow> string \<Rightarrow> string list" where
  \<comment> \<open>the chunks of a bracket expression: a hyphen ends a chunk, unless it is one of the
      \<open>skip\<close> next characters\<close>
  "chunk_walk skip cur [] = [cur]"
| "chunk_walk skip cur (c # cs) =
     (if c = CHR ''-'' \<and> skip = 0 then cur # chunk_walk 2 [] cs
      else chunk_walk (skip - 1) (cur @ [c]) cs)"

definition chunks_of :: "string \<Rightarrow> string list" where
  "chunks_of stuff =
     (let chunks = chunk_walk (if startswith stuff ''!'' then 2 else 1) [] stuff
      in if 2 \<le> length chunks \<and> last chunks = []
         then butlast (butlast chunks) @ [last (butlast chunks) @ ''-'']
         else chunks)"

fun remove_empty_ranges :: "string list \<Rightarrow> string list" where
  \<comment> \<open>from the right: a range whose start is above its end is dropped with both ends\<close>
  "remove_empty_ranges (c1 # c2 # rest) =
     (case remove_empty_ranges (c2 # rest) of
        [] \<Rightarrow> [c1]
      | d # ds \<Rightarrow>
          if c1 \<noteq> [] \<and> d \<noteq> [] \<and> (of_char (last c1) :: nat) > of_char (hd d)
          then (butlast c1 @ tl d) # ds
          else c1 # d # ds)"
| "remove_empty_ranges chunks = chunks"

fun ranges_of :: "string list \<Rightarrow> (char \<times> char) list" where
  "ranges_of (c1 # c2 # rest) =
     (if c1 \<noteq> [] \<and> c2 \<noteq> [] then (last c1, hd c2) # ranges_of (c2 # rest)
      else ranges_of (c2 # rest))"
| "ranges_of chunks = []"

definition class_item :: "string \<Rightarrow> glob_item" where
  \<comment> \<open>the item for \<open>[stuff]\<close>\<close>
  "class_item stuff =
     (let chunks = (if CHR ''-'' \<in> set stuff then remove_empty_ranges (chunks_of stuff)
                    else [stuff])
      in if concat chunks = [] then NEVER
         else if chunks = [''!''] then ANY
         else if startswith (hd chunks) ''!''
         then CLASS True (concat (tl (hd chunks) # tl chunks)) (ranges_of (tl (hd chunks) # tl chunks))
         else CLASS False (concat chunks) (ranges_of chunks))"

definition bracket_end :: "string \<Rightarrow> nat option" where
  \<comment> \<open>for the text after a \<open>[\<close>: the index of the bracket that closes it, if there is
      one; a \<open>]\<close> in first place, or after a leading \<open>!\<close>, does not close\<close>
  "bracket_end rest =
     (let j0 = (if startswith rest ''!'' then 1 else 0);
          j1 = (if startswith (drop j0 rest) '']'' then j0 + 1 else j0)
      in if CHR '']'' \<in> set (drop j1 rest)
         then Some (j1 + length (takeWhile (\<lambda>c. c \<noteq> CHR '']'') (drop j1 rest)))
         else None)"

fun translate :: "string \<Rightarrow> glob_item list" where
  "translate [] = []"
| "translate (c # rest) =
     (if c = CHR ''*'' then STAR # translate rest
      else if c = CHR ''?'' then ANY # translate rest
      else if c = CHR ''['' then
        (case bracket_end rest of
           None \<Rightarrow> LIT c # translate rest
         | Some j \<Rightarrow> class_item (take j rest) # translate (drop (Suc j) rest))
      else LIT c # translate rest)"

fun item_match :: "glob_item \<Rightarrow> char \<Rightarrow> bool" where
  "item_match STAR c = True"
| "item_match ANY c = True"
| "item_match (LIT l) c = (c = l)"
| "item_match NEVER c = False"
| "item_match (CLASS negated singles ranges) c =
     (let inside = (c \<in> set singles
                    \<or> list_ex (\<lambda>(lo, hi). (of_char lo :: nat) \<le> of_char c \<and> (of_char c :: nat) \<le> of_char hi) ranges)
      in if negated then \<not> inside else inside)"

fun match_items :: "glob_item list \<Rightarrow> string \<Rightarrow> bool" where
  "match_items [] s = (s = [])"
| "match_items (STAR # items) [] = match_items items []"
| "match_items (STAR # items) (c # cs) = (match_items items (c # cs) \<or> match_items (STAR # items) cs)"
| "match_items (i # items) [] = False"
| "match_items (i # items) (c # cs) = (item_match i c \<and> match_items items cs)"

definition fnmatch :: "string \<Rightarrow> string \<Rightarrow> bool" where
  \<comment> \<open>\<^verbatim>\<open>fnmatch.fnmatch(name, pat)\<close>; on POSIX neither argument is case-normalised\<close>
  "fnmatch name pat = match_items (translate pat) name"

section \<open>The operating system, as the program sees it\<close>

text \<open>
  The file system is a value of a type \<open>'w\<close> of which nothing is assumed; the program
  reads and changes it only through the calls below, one field for each library call of
  the source. A call that can raise returns the exception on the left. Every theorem
  about the program holds for every such record, that is for every behaviour of the file
  system, of \<^verbatim>\<open>glob\<close> and of the archiver.

  \<^verbatim>\<open>PathHelper.find_include_paths\<close> and \<^verbatim>\<open>ProcessManager.run_bsarch\<close> belong to other
  modules of the repository (\<^verbatim>\<open>pyro.PathHelper\<close>, \<^verbatim>\<open>pyro.ProcessManager\<close>); they are
  fields of the record as well, so nothing is assumed of them either. \<^verbatim>\<open>run_bsarch\<close>
  returns once the archiver has exited, and the run goes on whatever its exit status.
\<close>

datatype compress_type = ZIP_STORED | ZIP_DEFLATED

record 'w os =
  isfile :: "'w \<Rightarrow> string \<Rightarrow> bool"
  isdir :: "'w \<Rightarrow> string \<Rightarrow> bool"
  getcwd :: "'w \<Rightarrow> string"
  iglob :: "'w \<Rightarrow> string \<Rightarrow> bool \<Rightarrow> string list"
  find_include_paths :: "'w \<Rightarrow> string \<Rightarrow> bool \<Rightarrow> string list"
  open_append :: "'w \<Rightarrow> string \<Rightarrow> exc option"
  makedirs :: "string \<Rightarrow> 'w \<Rightarrow> exc + 'w"
  rmtree :: "string \<Rightarrow> 'w \<Rightarrow> 'w"
  copy2 :: "string \<Rightarrow> string \<Rightarrow> 'w \<Rightarrow> exc + 'w"
  run_bsarch :: "string \<Rightarrow> 'w \<Rightarrow> 'w"
  zip_open :: "string \<Rightarrow> compress_type \<Rightarrow> 'w \<Rightarrow> exc + 'w"
  zip_write :: "string \<Rightarrow> string \<Rightarrow> string \<Rightarrow> compress_type \<Rightarrow> 'w \<Rightarrow> exc + 'w"
  zip_close :: "string \<Rightarrow> 'w \<Rightarrow> exc + 'w"

text \<open>
  What the program does to the outside is recorded in order: the log records and the
  calls that change the file system. A run ends by returning, by \<^verbatim>\<open>sys.exit\<close>, or by an
  exception nothing catches, after which the interpreter exits with status 1.
\<close>

datatype level = Info | Warning | Error

datatype event =
  Log level string
  | MakeDirs string
  | RmTree string
  | Copy2 string string
  | RunBsarch string
  | ZipOpen string compress_type
  | ZipWrite string string string
  | ZipClose string

datatype abort = SysExit int | Uncaught exc

fun exit_status :: "abort \<Rightarrow> int" where
  "exit_status (SysExit n) = n"
| "exit_status (Uncaught e) = 1"

record 'w state =
  world :: 'w
  trace :: "event list"

definition emit :: "event \<Rightarrow> 'w state \<Rightarrow> 'w state" where
  "emit e s = s\<lparr>trace := trace s @ [e]\<rparr>"

definition log :: "level \<Rightarrow> string \<Rightarrow> 'w state \<Rightarrow> 'w state" where
  "log l msg s = emit (Log l msg) s"

definition effect :: "event \<Rightarrow> 'w \<Rightarrow> 'w state \<Rightarrow> 'w state" where
  \<comment> \<open>a call that succeeded: the new file system, and the call in the trace\<close>
  "effect e w s = \<lparr>world = w, trace = trace s @ [e]\<rparr>"

section \<open>The package manager\<close>

text \<open>
  \<^verbatim>\<open>ProjectOptions\<close> and \<^verbatim>\<open>PapyrusProject\<close> are classes of other modules of the
  repository; the records hold the attributes \<^verbatim>\<open>PackageManager\<close> reads from them.
\<close>

record options =
  game_type :: string
  bsarch_path :: string
  temp_path :: string
  package_path :: string
  zip_output_path :: string

definition pak_extension :: "options \<Rightarrow> string" where
  \<comment> \<open>set by \<^verbatim>\<open>__init__\<close>\<close>
  "pak_extension opts = (if game_type opts = ''fo4'' then ''.ba2'' else ''.bsa'')"

definition zip_extension :: string where
  "zip_extension = ''.zip''"

definition fix_package_extension :: "options \<Rightarrow> string \<Rightarrow> string" where
  "fix_package_extension opts package_name =
     (if \<not> (endswith (casefold package_name) ''.ba2'' \<or> endswith (casefold package_name) ''.bsa'')
      then package_name @ pak_extension opts
      else fst (splitext package_name) @ pak_extension opts)"

definition fix_zip_extension :: "string \<Rightarrow> string" where
  "fix_zip_extension zip_name =
     (if \<not> endswith (casefold zip_name) ''.zip'' then zip_name @ zip_extension
      else fst (splitext zip_name) @ zip_extension)"

definition replace_archive_extension :: "options \<Rightarrow> string \<Rightarrow> string" where
  \<comment> \<open>the extension rule in the words of the specification: an existing \<^verbatim>\<open>.bsa\<close> or
      \<^verbatim>\<open>.ba2\<close> extension, compared without regard to case, is replaced by the extension of
      the game; any other name has that extension appended\<close>
  "replace_archive_extension opts package_name =
     (case splitext package_name of
        (stem, ext) \<Rightarrow>
          if casefold ext = ''.bsa'' \<or> casefold ext = ''.ba2''
          then stem @ pak_extension opts
          else package_name @ pak_extension opts)"

subsection \<open>The project\<close>

text \<open>
  The project file is parsed by \<^verbatim>\<open>PapyrusProject\<close>. An include node has a tag, the
  attribute \<^verbatim>\<open>NoRecurse\<close> (which may be absent) and a text; a package or zip node has
  a tag, the attributes \<^verbatim>\<open>Name\<close> and \<^verbatim>\<open>RootDir\<close>, the attribute \<^verbatim>\<open>Compression\<close>
  (which may be absent) and its child nodes. The source calls string methods on the
  text, on \<^verbatim>\<open>Name\<close> and on \<^verbatim>\<open>RootDir\<close> without asking whether they are there: the
  nodes of the model have them.
\<close>

record include_node =
  tag :: string
  NoRecurse :: "string option"
  node_text :: string

record decl_node =
  decl_tag :: string
  Name :: string
  RootDir :: string
  Compression :: "string option"
  children :: "include_node list"

record ppj =
  project_name :: string
  project_path :: string
  packages_node :: "decl_node list"
  zip_files_node :: "decl_node list"
  opts :: options

subsection \<open>\<^verbatim>\<open>_check_write_permission\<close>\<close>

definition check_write_permission ::
    "'w os \<Rightarrow> string \<Rightarrow> 'w state \<Rightarrow> (abort \<times> 'w state) + 'w state" where
  "check_write_permission os file_path s =
     (if isfile os (world s) file_path then
        (case open_append os (world s) file_path of
           None \<Rightarrow> Inr s
         | Some e \<Rightarrow>
             if e = PermissionError
             then Inl (SysExit 1,
                       log Error (''Cannot create file without write permission to: ''
                                  @ dquote file_path) s)
             else Inl (Uncaught e, s))
      else Inr s)"

subsection \<open>\<^verbatim>\<open>_generate_include_paths\<close>\<close>

definition wildcard_pattern :: "bool \<Rightarrow> string" where
  \<comment> \<open>\<open>*\<close>, or \<open>**\<close>, a backslash and \<open>*\<close>\<close>
  "wildcard_pattern no_recurse =
     (if no_recurse then ''*'' else [CHR ''*'', CHR ''*'', CHR 0x5C, CHR ''*''])"

definition pardir_warning :: string where
  "pardir_warning = ''Include paths cannot start with '' @ dquote pardir"

definition outside_warning :: "string \<Rightarrow> string" where
  "outside_warning path_or_pattern =
     ''Cannot include path outside RootDir: '' @ dquote path_or_pattern"

definition substitute_curdir :: "string \<Rightarrow> string \<Rightarrow> string" where
  \<comment> \<open>the text the source assigns back to the node before it normalises it; a run
      resolves a node once, so the assignment is not seen again\<close>
  "substitute_curdir root_path txt =
     (if txt = curdir \<or> startswith txt curdir then replace_first curdir root_path txt
      else txt)"

definition include_paths ::
    "'w os \<Rightarrow> 'w \<Rightarrow> include_node \<Rightarrow> string \<Rightarrow> string list \<times> string list" where
  \<comment> \<open>one round of the loop over the child nodes: the paths it yields and the warnings it
      logs. The source is a generator, and its consumer acts between two paths; the
      model resolves a node in one step, in the file system as the generator finds it
      when it reaches the node\<close>
  "include_paths os w include_node root_path =
     (if \<not> endswith (tag include_node) ''Include'' then ([], [])
      else
        let no_recurse = (NoRecurse include_node = Some ''True'');
            wildcard = wildcard_pattern no_recurse
        in
          if startswith (node_text include_node) pardir then ([], [pardir_warning])
          else
            let path_or_pattern = normpath (substitute_curdir root_path (node_text include_node))
            in
              if CHR ''*'' \<in> set path_or_pattern then
                (if \<not> isabs path_or_pattern then
                   (filter (\<lambda>include_path. isfile os w include_path
                                             \<and> fnmatch include_path path_or_pattern)
                      (iglob os w (join root_path wildcard) (\<not> no_recurse)), [])
                 else if contains root_path path_or_pattern then
                   (filter (\<lambda>include_path. isfile os w include_path
                                             \<and> fnmatch include_path path_or_pattern)
                      (iglob os w path_or_pattern (\<not> no_recurse)), [])
                 else ([], [outside_warning path_or_pattern]))
              else if isabs path_or_pattern then
                (if \<not> contains root_path path_or_pattern
                 then ([], [outside_warning path_or_pattern])
                 else if isfile os w path_or_pattern then ([path_or_pattern], [])
                 else (find_include_paths os w (join path_or_pattern wildcard) no_recurse, []))
              else
                (if \<not> isdir os w (join root_path path_or_pattern)
                 then ([join root_path path_or_pattern], [])
                 else (find_include_paths os w
                         (join (join root_path path_or_pattern) wildcard) no_recurse, [])))"

fun generate_include_paths ::
    "'w os \<Rightarrow> 'w \<Rightarrow> include_node list \<Rightarrow> string \<Rightarrow> string list \<times> string list" where
  \<comment> \<open>the generator run to its end in one file system: all paths, all warnings\<close>
  "generate_include_paths os w [] root_path = ([], [])"
| "generate_include_paths os w (include_node # rest) root_path =
     (case include_paths os w include_node root_path of
        (paths, warnings) \<Rightarrow>
          (case generate_include_paths os w rest root_path of
             (paths', warnings') \<Rightarrow> (paths @ paths', warnings @ warnings')))"

fun log_all :: "level \<Rightarrow> string list \<Rightarrow> 'w state \<Rightarrow> 'w state" where
  "log_all l [] s = s"
| "log_all l (msg # msgs) s = log_all l msgs (log l msg s)"

subsection \<open>\<^verbatim>\<open>build_commands\<close>\<close>

text \<open>
  Modelled from the spec: \<^verbatim>\<open>CommandArguments\<close> is a class of another module of the
  repository (\<^verbatim>\<open>pyro.CommandArguments\<close>). By the specification the command line is the
  archiver path,
  \<^verbatim>\<open>pack\<close>, the containing folder, the output path and the format flag, every
  path-bearing argument between double quotes: \<^verbatim>\<open>append\<close> adds an argument, quoted on
  request, and \<^verbatim>\<open>join\<close> puts single spaces between the arguments.
\<close>

definition arguments_append :: "string list \<Rightarrow> string \<Rightarrow> bool \<Rightarrow> string list" where
  \<comment> \<open>Modelled from the spec: \<^verbatim>\<open>CommandArguments.append(value, enquote_value)\<close>\<close>
  "arguments_append arguments v enquote_value =
     arguments @ [if enquote_value then dquote v else v]"

definition arguments_join :: "string list \<Rightarrow> string" where
  \<comment> \<open>Modelled from the spec: \<^verbatim>\<open>CommandArguments.join()\<close>\<close>
  "arguments_join arguments = join_with '' '' arguments"

definition build_commands :: "options \<Rightarrow> string \<Rightarrow> string \<Rightarrow> string" where
  "build_commands ops containing_folder output_path =
     (let arguments = [];
          arguments = arguments_append arguments (bsarch_path ops) True;
          arguments = arguments_append arguments ''pack'' False;
          arguments = arguments_append arguments containing_folder True;
          arguments = arguments_append arguments output_path True;
          arguments =
            (if game_type ops = ''fo4'' then arguments_append arguments ''-fo4'' False
             else if game_type ops = ''sse'' then arguments_append arguments ''-sse'' False
             else arguments_append arguments ''-tes5'' False)
      in arguments_join arguments)"

subsection \<open>\<^verbatim>\<open>create_packages\<close>\<close>

definition package_file_name ::
    "ppj \<Rightarrow> nat \<Rightarrow> string list \<Rightarrow> decl_node \<Rightarrow> string \<times> string list" where
  \<comment> \<open>the file name of a package node before its extension is fixed, and the names
      taken so far; \<open>i\<close> is the position of the node among all child nodes\<close>
  "package_file_name pj i package_names package_node =
     (let file_name = Name package_node;
          file_name =
            (if casefold file_name \<in> set package_names
             then project_name pj @ '' ('' @ str_of_nat i @ '')''
             else file_name);
          package_names =
            (if casefold file_name \<notin> set package_names
             then package_names @ [casefold file_name]
             else package_names)
      in (file_name, package_names))"

definition clear_temporary_data :: "'w os \<Rightarrow> options \<Rightarrow> 'w state \<Rightarrow> 'w state" where
  "clear_temporary_data os ops s =
     (if isdir os (world s) (temp_path ops)
      then effect (RmTree (temp_path ops)) (rmtree os (temp_path ops) (world s)) s
      else s)"

definition ensure_directory ::
    "'w os \<Rightarrow> string \<Rightarrow> 'w state \<Rightarrow> (abort \<times> 'w state) + 'w state" where
  \<comment> \<open>\<^verbatim>\<open>if not os.path.isdir(p): os.makedirs(p, exist_ok=True)\<close>\<close>
  "ensure_directory os p s =
     (if \<not> isdir os (world s) p then
        (case makedirs os p (world s) of
           Inl e \<Rightarrow> Inl (Uncaught e, s)
         | Inr w \<Rightarrow> Inr (effect (MakeDirs p) w s))
      else Inr s)"

fun stage_paths ::
    "'w os \<Rightarrow> options \<Rightarrow> string \<Rightarrow> string list \<Rightarrow> 'w state
      \<Rightarrow> (abort \<times> 'w state) + 'w state" where
  \<comment> \<open>the body of the loop over the yielded paths\<close>
  "stage_paths os ops root_dir [] s = Inr s"
| "stage_paths os ops root_dir (source_path # rest) s =
     (let s1 = log Info (''+ '' @ dquote source_path) s in
      case relpath (getcwd os (world s1)) source_path root_dir of
        Inl e \<Rightarrow> Inl (Uncaught e, s1)
      | Inr rel \<Rightarrow>
          let target_path =
                (if endswith (casefold source_path) ''.pex''
                    \<and> \<not> startswith (casefold rel) ''scripts''
                 then join (join (temp_path ops) ''Scripts'') rel
                 else join (temp_path ops) rel)
          in
            case makedirs os (dirname target_path) (world s1) of
              Inl e \<Rightarrow> Inl (Uncaught e, s1)
            | Inr w2 \<Rightarrow>
                let s2 = effect (MakeDirs (dirname target_path)) w2 s1 in
                case copy2 os source_path target_path w2 of
                  Inl e \<Rightarrow> Inl (Uncaught e, s2)
                | Inr w3 \<Rightarrow>
                    stage_paths os ops root_dir rest
                      (effect (Copy2 source_path target_path) w3 s2))"

fun stage_includes ::
    "'w os \<Rightarrow> options \<Rightarrow> string \<Rightarrow> include_node list \<Rightarrow> 'w state
      \<Rightarrow> (abort \<times> 'w state) + 'w state" where
  \<comment> \<open>the generator and its consumer, one child node at a time: the node is resolved in
      the file system the earlier copies have left\<close>
  "stage_includes os ops root_dir [] s = Inr s"
| "stage_includes os ops root_dir (include_node # rest) s =
     (case include_paths os (world s) include_node root_dir of
        (paths, warnings) \<Rightarrow>
          (case stage_paths os ops root_dir paths (log_all Warning warnings s) of
             Inl a \<Rightarrow> Inl a
           | Inr s' \<Rightarrow> stage_includes os ops root_dir rest s'))"

definition package_declaration ::
    "'w os \<Rightarrow> ppj \<Rightarrow> nat \<Rightarrow> string list \<Rightarrow> decl_node \<Rightarrow> 'w state
      \<Rightarrow> (abort \<times> 'w state) + (string list \<times> 'w state)" where
  \<comment> \<open>the body of the loop over the package nodes, for a node with the right tag\<close>
  "package_declaration os pj i package_names package_node s =
     (case package_file_name pj i package_names package_node of
        (file_name0, package_names') \<Rightarrow>
          let file_name = fix_package_extension (opts pj) file_name0;
              file_path = join (package_path (opts pj)) file_name
          in
            case check_write_permission os file_path s of
              Inl a \<Rightarrow> Inl a
            | Inr s1 \<Rightarrow>
                let s2 = log Info (''Creating '' @ dquote file_name @ ''...'') s1 in
                case stage_includes os (opts pj) (RootDir package_node)
                       (children package_node) s2 of
                  Inl a \<Rightarrow> Inl a
                | Inr s3 \<Rightarrow>
                    let command = build_commands (opts pj) (temp_path (opts pj)) file_path;
                        s4 = effect (RunBsarch command) (run_bsarch os command (world s3)) s3
                    in Inr (package_names', clear_temporary_data os (opts pj) s4))"

fun package_loop ::
    "'w os \<Rightarrow> ppj \<Rightarrow> nat \<Rightarrow> string list \<Rightarrow> decl_node list \<Rightarrow> 'w state
      \<Rightarrow> (abort \<times> 'w state) + 'w state" where
  "package_loop os pj i package_names [] s = Inr s"
| "package_loop os pj i package_names (package_node # rest) s =
     (if \<not> endswith (decl_tag package_node) ''Package''
      then package_loop os pj (Suc i) package_names rest s
      else
        (case package_declaration os pj i package_names package_node s of
           Inl a \<Rightarrow> Inl a
         | Inr (package_names', s') \<Rightarrow> package_loop os pj (Suc i) package_names' rest s'))"

definition create_packages :: "'w os \<Rightarrow> ppj \<Rightarrow> 'w state \<Rightarrow> (abort \<times> 'w state) + 'w state" where
  "create_packages os pj s =
     (case ensure_directory os (package_path (opts pj))
             (clear_temporary_data os (opts pj) s) of
        Inl a \<Rightarrow> Inl a
      | Inr s' \<Rightarrow> package_loop os pj 0 [] (packages_node pj) s')"

subsection \<open>\<^verbatim>\<open>create_zip\<close>\<close>

definition zip_file_name :: "nat \<Rightarrow> string list \<Rightarrow> decl_node \<Rightarrow> string \<times> string list" where
  "zip_file_name i zip_names zip_node =
     (let file_name = Name zip_node;
          file_name =
            (if casefold file_name \<in> set zip_names
             then file_name @ '' ('' @ str_of_nat i @ '')''
             else file_name);
          zip_names =
            (if casefold file_name \<notin> set zip_names
             then zip_names @ [casefold file_name]
             else zip_names)
      in (file_name, zip_names))"

definition outside_zip_warning :: "string \<Rightarrow> string" where
  "outside_zip_warning include_path =
     ''Cannot add file to ZIP outside RootDir: '' @ dquote include_path"

fun zip_add_paths ::
    "'w os \<Rightarrow> string \<Rightarrow> compress_type \<Rightarrow> string \<Rightarrow> string list \<Rightarrow> 'w state
      \<Rightarrow> (exc \<times> 'w state) + 'w state" where
  \<comment> \<open>the body of the loop over the yielded paths, inside the \<^verbatim>\<open>with\<close> block\<close>
  "zip_add_paths os file_path compress zip_root_path [] s = Inr s"
| "zip_add_paths os file_path compress zip_root_path (include_path # rest) s =
     (let s1 = log Info (''+ '' @ dquote include_path) s in
      if \<not> contains zip_root_path include_path
      then zip_add_paths os file_path compress zip_root_path rest
             (log Warning (outside_zip_warning include_path) s1)
      else
        (case relpath (getcwd os (world s1)) include_path zip_root_path of
           Inl e \<Rightarrow> Inl (e, s1)
         | Inr arcname \<Rightarrow>
             (case zip_write os file_path include_path arcname compress (world s1) of
                Inl e \<Rightarrow> Inl (e, s1)
              | Inr w \<Rightarrow>
                  zip_add_paths os file_path compress zip_root_path rest
                    (effect (ZipWrite file_path include_path arcname) w s1))))"

fun zip_includes ::
    "'w os \<Rightarrow> string \<Rightarrow> compress_type \<Rightarrow> string \<Rightarrow> include_node list \<Rightarrow> 'w state
      \<Rightarrow> (exc \<times> 'w state) + 'w state" where
  "zip_includes os file_path compress zip_root_path [] s = Inr s"
| "zip_includes os file_path compress zip_root_path (include_node # rest) s =
     (case include_paths os (world s) include_node zip_root_path of
        (paths, warnings) \<Rightarrow>
          (case zip_add_paths os file_path compress zip_root_path paths
                  (log_all Warning warnings s) of
             Inl a \<Rightarrow> Inl a
           | Inr s' \<Rightarrow> zip_includes os file_path compress zip_root_path rest s'))"

definition zip_failure :: "string \<Rightarrow> exc \<Rightarrow> 'w state \<Rightarrow> (abort \<times> 'w state) + 'w state" where
  \<comment> \<open>an exception that leaves the \<^verbatim>\<open>try\<close> block: the handler catches
      \<^verbatim>\<open>PermissionError\<close> alone\<close>
  "zip_failure file_path e s =
     (if e = PermissionError
      then Inl (SysExit 1, log Error (''Cannot open ZIP file for writing: '' @ dquote file_path) s)
      else Inl (Uncaught e, s))"

definition write_zip ::
    "'w os \<Rightarrow> string \<Rightarrow> compress_type \<Rightarrow> string \<Rightarrow> include_node list \<Rightarrow> 'w state
      \<Rightarrow> (abort \<times> 'w state) + 'w state" where
  \<comment> \<open>the \<^verbatim>\<open>try\<close> block: the archive is opened, filled and closed; leaving the
      \<^verbatim>\<open>with\<close> block closes the archive also when the body raised\<close>
  "write_zip os file_path compress zip_root_path include_nodes s =
     (case zip_open os file_path compress (world s) of
        Inl e \<Rightarrow> zip_failure file_path e s
      | Inr w \<Rightarrow>
          (case zip_includes os file_path compress zip_root_path include_nodes
                  (effect (ZipOpen file_path compress) w s) of
             Inl (e, s2) \<Rightarrow>
               (case zip_close os file_path (world s2) of
                  Inl e2 \<Rightarrow> zip_failure file_path e2 s2
                | Inr w' \<Rightarrow> zip_failure file_path e (effect (ZipClose file_path) w' s2))
           | Inr s2 \<Rightarrow>
               (case zip_close os file_path (world s2) of
                  Inl e2 \<Rightarrow> zip_failure file_path e2 s2
                | Inr w' \<Rightarrow>
                    Inr (log Info (''Wrote ZIP file: '' @ dquote file_path)
                           (effect (ZipClose file_path) w' s2)))))"

definition unresolved_root_error :: "string \<Rightarrow> string" where
  "unresolved_root_error zip_root_path =
     ''Cannot resolve RootDir path to existing folder: '' @ dquote zip_root_path"

definition resolve_root_dir :: "'w os \<Rightarrow> ppj \<Rightarrow> 'w \<Rightarrow> string \<Rightarrow> string option" where
  \<comment> \<open>the root directory the archive is built from; \<open>None\<close> when a relative
      \<^verbatim>\<open>RootDir\<close> does not lead to an existing folder\<close>
  "resolve_root_dir os pj w zip_root_path =
     (if \<not> isabs zip_root_path then
        (let test_path = normpath (join (project_path pj) zip_root_path)
         in if isdir os w test_path then Some test_path else None)
      else Some zip_root_path)"

definition zip_declaration ::
    "'w os \<Rightarrow> ppj \<Rightarrow> nat \<Rightarrow> string list \<Rightarrow> decl_node \<Rightarrow> 'w state
      \<Rightarrow> (abort \<times> 'w state) + (string list \<times> 'w state)" where
  \<comment> \<open>the body of the loop over the zip nodes, for a node with the right tag\<close>
  "zip_declaration os pj i zip_names zip_node s =
     (case zip_file_name i zip_names zip_node of
        (file_name0, zip_names') \<Rightarrow>
          let file_name = fix_zip_extension file_name0;
              file_path = join (zip_output_path (opts pj)) file_name
          in
            case check_write_permission os file_path s of
              Inl a \<Rightarrow> Inl a
            | Inr s1 \<Rightarrow>
                let compress = (if Compression zip_node = Some ''store''
                                then ZIP_STORED else ZIP_DEFLATED);
                    zip_root_path = RootDir zip_node;
                    s2 = log Info (''Creating '' @ dquote file_name @ ''...'') s1
                in
                  case resolve_root_dir os pj (world s2) zip_root_path of
                    None \<Rightarrow>
                      Inl (SysExit 1, log Error (unresolved_root_error zip_root_path) s2)
                  | Some zip_root_path \<Rightarrow>
                      (case write_zip os file_path compress zip_root_path
                              (children zip_node) s2 of
                         Inl a \<Rightarrow> Inl a
                       | Inr s3 \<Rightarrow> Inr (zip_names', s3)))"

fun zip_loop ::
    "'w os \<Rightarrow> ppj \<Rightarrow> nat \<Rightarrow> string list \<Rightarrow> decl_node list \<Rightarrow> 'w state
      \<Rightarrow> (abort \<times> 'w state) + 'w state" where
  "zip_loop os pj i zip_names [] s = Inr s"
| "zip_loop os pj i zip_names (zip_node # rest) s =
     (if \<not> endswith (decl_tag zip_node) ''ZipFile''
      then zip_loop os pj (Suc i) zip_names rest s
      else
        (case zip_declaration os pj i zip_names zip_node s of
           Inl a \<Rightarrow> Inl a
         | Inr (zip_names', s') \<Rightarrow> zip_loop os pj (Suc i) zip_names' rest s'))"

definition create_zip :: "'w os \<Rightarrow> ppj \<Rightarrow> 'w state \<Rightarrow> (abort \<times> 'w state) + 'w state" where
  "create_zip os pj s =
     (case ensure_directory os (zip_output_path (opts pj)) s of
        Inl a \<Rightarrow> Inl a
      | Inr s' \<Rightarrow> zip_loop os pj 0 [] (zip_files_node pj) s')"

section \<open>A file system given by its listing\<close>

text \<open>
  A concrete file system for the examples: the absolute, normalised paths of its
  regular files and of its directories (every directory above an entry is listed), the
  paths that cannot be opened for writing, and the working directory. The library calls
  on it follow CPython: \<^verbatim>\<open>glob.iglob\<close> walks the pattern from its last component
  upwards, lists a directory for a component with wildcards, and leaves out the names
  that begin with a dot unless the pattern component does.
\<close>

record disk =
  files :: "string list"
  dirs :: "string list"
  denied :: "string list"
  cwd :: string

definition disk_isfile :: "disk \<Rightarrow> string \<Rightarrow> bool" where
  "disk_isfile d p = (abspath (cwd d) p \<in> set (files d))"

definition disk_isdir :: "disk \<Rightarrow> string \<Rightarrow> bool" where
  "disk_isdir d p = (abspath (cwd d) p \<in> set (dirs d))"

definition disk_lexists :: "disk \<Rightarrow> string \<Rightarrow> bool" where
  "disk_lexists d p = (disk_isfile d p \<or> disk_isdir d p)"

definition ishidden :: "string \<Rightarrow> bool" where
  "ishidden n = startswith n ''.''"

definition has_magic :: "string \<Rightarrow> bool" where
  "has_magic s = list_ex (\<lambda>c. c = CHR ''*'' \<or> c = CHR ''?'' \<or> c = CHR ''['') s"

definition glob_join :: "string \<Rightarrow> string \<Rightarrow> string" where
  \<comment> \<open>\<^verbatim>\<open>glob._join\<close>\<close>
  "glob_join a b = (if a = [] \<or> b = [] then a @ b else join a b)"

definition listdir :: "disk \<Rightarrow> string \<Rightarrow> bool \<Rightarrow> string list" where
  \<comment> \<open>the names in a directory; with \<open>dironly\<close> the names of its directories\<close>
  "listdir d dir dironly =
     map (\<lambda>e. snd (split e))
       (filter (\<lambda>e. fst (split e) = abspath (cwd d) dir \<and> snd (split e) \<noteq> [])
          (if dironly then dirs d else dirs d @ files d))"

definition rlistdir :: "disk \<Rightarrow> string \<Rightarrow> bool \<Rightarrow> string list" where
  \<comment> \<open>the relative paths of everything below a directory that no hidden name leads to\<close>
  "rlistdir d dir dironly =
     (let parent = abspath (cwd d) dir;
          stem = (if endswith parent sep then parent else parent @ sep)
      in filter (\<lambda>r. r \<noteq> [] \<and> \<not> list_ex ishidden (split_on (CHR ''/'') r))
           (map (\<lambda>e. drop (length stem) e)
              (filter (\<lambda>e. startswith e stem)
                 (if dironly then dirs d else dirs d @ files d))))"

definition glob0 :: "disk \<Rightarrow> string \<Rightarrow> string \<Rightarrow> string list" where
  "glob0 d dir basename =
     (if basename \<noteq> [] then (if disk_lexists d (glob_join dir basename) then [basename] else [])
      else if disk_isdir d dir then [basename]
      else [])"

definition glob1 :: "disk \<Rightarrow> string \<Rightarrow> string \<Rightarrow> bool \<Rightarrow> string list" where
  "glob1 d dir pattern dironly =
     filter (\<lambda>n. fnmatch n pattern)
       (if \<not> ishidden pattern then filter (\<lambda>n. \<not> ishidden n) (listdir d dir dironly)
        else listdir d dir dironly)"

definition glob2 :: "disk \<Rightarrow> string \<Rightarrow> bool \<Rightarrow> string list" where
  "glob2 d dir dironly =
     (if dir = [] \<or> disk_isdir d dir then [[]] else []) @ rlistdir d dir dironly"

definition glob_in_dir :: "disk \<Rightarrow> bool \<Rightarrow> bool \<Rightarrow> string \<Rightarrow> string \<Rightarrow> string list" where
  "glob_in_dir d recursive dironly dir basename =
     (if has_magic basename then
        (if recursive \<and> basename = ''**'' then glob2 d dir dironly
         else glob1 d dir basename dironly)
      else glob0 d dir basename)"

lemma rstrip_sep_prefix: "\<exists>t. s = rstrip_sep s @ t"
proof -
  have "rev s = takeWhile (\<lambda>c. c = CHR ''/'') (rev s) @ dropWhile (\<lambda>c. c = CHR ''/'') (rev s)"
    by simp
  then have "s = rev (dropWhile (\<lambda>c. c = CHR ''/'') (rev s)) @ rev (takeWhile (\<lambda>c. c = CHR ''/'') (rev s))"
    by (metis rev_append rev_rev_ident)
  then show ?thesis unfolding rstrip_sep_def by blast
qed

lemma split_fst_prefix: "\<exists>t. p = fst (split p) @ t"
proof -
  obtain t where "take (nat (rfind (CHR ''/'') p + 1)) p = rstrip_sep (take (nat (rfind (CHR ''/'') p + 1)) p) @ t"
    using rstrip_sep_prefix by blast
  then have "p = rstrip_sep (take (nat (rfind (CHR ''/'') p + 1)) p) @ t @ drop (nat (rfind (CHR ''/'') p + 1)) p"
    by (metis append.assoc append_take_drop_id)
  moreover have "p = take (nat (rfind (CHR ''/'') p + 1)) p @ drop (nat (rfind (CHR ''/'') p + 1)) p"
    by simp
  ultimately show ?thesis
    unfolding split_def Let_def by (auto simp del: append_take_drop_id)
qed

lemma split_fst_shorter: "fst (split p) \<noteq> p \<Longrightarrow> length (fst (split p)) < length p"
proof -
  assume ne: "fst (split p) \<noteq> p"
  obtain t where t: "p = fst (split p) @ t" using split_fst_prefix by blast
  with ne have "t \<noteq> []" by auto
  then have "length (fst (split p)) < length (fst (split p) @ t)" by simp
  with t show ?thesis by simp
qed

function iglob_rec :: "disk \<Rightarrow> bool \<Rightarrow> bool \<Rightarrow> string \<Rightarrow> string list" where
  "iglob_rec d recursive dironly pathname =
     (if \<not> has_magic pathname then
        (if snd (split pathname) \<noteq> [] then
           (if disk_lexists d pathname then [pathname] else [])
         else if disk_isdir d (fst (split pathname)) then [pathname]
         else [])
      else if fst (split pathname) = [] then
        glob_in_dir d recursive dironly [] (snd (split pathname))
      else
        concat
          (map (\<lambda>dir. map (\<lambda>n. join dir n)
                         (glob_in_dir d recursive dironly dir (snd (split pathname))))
             (if fst (split pathname) \<noteq> pathname \<and> has_magic (fst (split pathname))
              then iglob_rec d recursive True (fst (split pathname))
              else [fst (split pathname)])))"
  by pat_completeness auto
termination
  by (relation "measure (\<lambda>(d, recursive, dironly, pathname). length pathname)")
     (auto simp: split_fst_shorter)

definition disk_iglob :: "disk \<Rightarrow> string \<Rightarrow> bool \<Rightarrow> string list" where
  "disk_iglob d pathname recursive =
     (let found = iglob_rec d recursive False pathname
      in if pathname = [] \<or> (recursive \<and> take 2 pathname = ''**'')
         then (case found of [] \<Rightarrow> [] | x # xs \<Rightarrow> if x = [] then xs else found)
         else found)"

definition add_entries :: "string list \<Rightarrow> string list \<Rightarrow> string list" where
  "add_entries new old = old @ filter (\<lambda>e. e \<notin> set old) (remdups new)"

fun ancestors :: "string \<Rightarrow> string list \<Rightarrow> string list" where
  \<comment> \<open>the directories a chain of components names, from the top\<close>
  "ancestors base [] = []"
| "ancestors base (c # cs) = join base c # ancestors (join base c) cs"

definition disk_makedirs :: "string \<Rightarrow> disk \<Rightarrow> exc + disk" where
  "disk_makedirs p d =
     (if p = [] then Inl FileNotFoundError
      else if list_ex (\<lambda>a. a \<in> set (files d))
                (ancestors sep (filter (\<lambda>x. x \<noteq> []) (split_on (CHR ''/'') (abspath (cwd d) p))))
      then Inl OSError
      else Inr (d\<lparr>dirs :=
                  add_entries
                    (ancestors sep (filter (\<lambda>x. x \<noteq> []) (split_on (CHR ''/'') (abspath (cwd d) p))))
                    (dirs d)\<rparr>))"

definition disk_rmtree :: "string \<Rightarrow> disk \<Rightarrow> disk" where
  "disk_rmtree p d =
     d\<lparr>files := filter (\<lambda>e. \<not> startswith e (abspath (cwd d) p @ sep)) (files d),
       dirs := filter (\<lambda>e. e \<noteq> abspath (cwd d) p \<and> \<not> startswith e (abspath (cwd d) p @ sep))
                 (dirs d)\<rparr>"

definition disk_create :: "string \<Rightarrow> disk \<Rightarrow> exc + disk" where
  \<comment> \<open>a file is opened for writing at \<open>p\<close>\<close>
  "disk_create p d =
     (if abspath (cwd d) p \<in> set (denied d) then Inl PermissionError
      else if disk_isdir d p then Inl OSError
      else if \<not> disk_isdir d (dirname (abspath (cwd d) p)) then Inl FileNotFoundError
      else Inr (d\<lparr>files := add_entries [abspath (cwd d) p] (files d)\<rparr>))"

definition disk_copy2 :: "string \<Rightarrow> string \<Rightarrow> disk \<Rightarrow> exc + disk" where
  "disk_copy2 src dst d =
     (if \<not> disk_isfile d src then Inl FileNotFoundError
      else if disk_isdir d dst then disk_create (join dst (snd (split src))) d
      else disk_create dst d)"

definition disk_open_append :: "disk \<Rightarrow> string \<Rightarrow> exc option" where
  "disk_open_append d p =
     (if abspath (cwd d) p \<in> set (denied d) then Some PermissionError else None)"

definition disk_zip_write ::
    "string \<Rightarrow> string \<Rightarrow> string \<Rightarrow> compress_type \<Rightarrow> disk \<Rightarrow> exc + disk" where
  "disk_zip_write z src arcname compress d =
     (if disk_lexists d src then Inr d else Inl FileNotFoundError)"

definition disk_find_include_paths :: "disk \<Rightarrow> string \<Rightarrow> bool \<Rightarrow> string list" where
  \<comment> \<open>Modelled from the spec: \<^verbatim>\<open>PathHelper.find_include_paths\<close>, of the module
      \<^verbatim>\<open>pyro.PathHelper\<close>, enumerates the files a search pattern finds, below the folder
      too unless recursion is disabled\<close>
  "disk_find_include_paths d search_path no_recurse =
     filter (disk_isfile d) (disk_iglob d search_path (\<not> no_recurse))"

definition disk_os :: "disk os" where
  \<comment> \<open>the archiver is an outside process: what it writes is not part of the listing\<close>
  "disk_os =
     \<lparr>isfile = disk_isfile,
      isdir = disk_isdir,
      getcwd = cwd,
      iglob = disk_iglob,
      find_include_paths = disk_find_include_paths,
      open_append = disk_open_append,
      makedirs = disk_makedirs,
      rmtree = disk_rmtree,
      copy2 = disk_copy2,
      run_bsarch = (\<lambda>command d. d),
      zip_open = (\<lambda>p compress d. disk_create p d),
      zip_write = disk_zip_write,
      zip_close = (\<lambda>p d. Inr d)\<rparr>"

definition start :: "'w \<Rightarrow> 'w state" where
  \<comment> \<open>the state a run starts in: nothing logged, nothing done\<close>
  "start w = \<lparr>world = w, trace = []\<rparr>"

section \<open>What a run did\<close>

definition outcome_trace :: "(abort \<times> 'w state) + 'w state \<Rightarrow> event list" where
  \<comment> \<open>the trace at the end of a run, however it ended\<close>
  "outcome_trace r = (case r of Inl (a, s) \<Rightarrow> trace s | Inr s \<Rightarrow> trace s)"

definition returned :: "(abort \<times> 'w state) + 'w state \<Rightarrow> bool" where
  \<comment> \<open>the run came to its end: no exit, no exception\<close>
  "returned r = (case r of Inl a \<Rightarrow> False | Inr s \<Rightarrow> True)"

fun staged :: "event list \<Rightarrow> (string \<times> string) list" where
  \<comment> \<open>the files copied into the staging tree: source and target\<close>
  "staged [] = []"
| "staged (Copy2 src dst # es) = (src, dst) # staged es"
| "staged (e # es) = staged es"

fun archiver_calls :: "event list \<Rightarrow> string list" where
  "archiver_calls [] = []"
| "archiver_calls (RunBsarch command # es) = command # archiver_calls es"
| "archiver_calls (e # es) = archiver_calls es"

fun warnings :: "event list \<Rightarrow> string list" where
  "warnings [] = []"
| "warnings (Log Warning msg # es) = msg # warnings es"
| "warnings (e # es) = warnings es"

fun zip_entries :: "event list \<Rightarrow> (string \<times> string) list" where
  \<comment> \<open>the entries written to archives: source path and entry name\<close>
  "zip_entries [] = []"
| "zip_entries (ZipWrite p src arcname # es) = (src, arcname) # zip_entries es"
| "zip_entries (e # es) = zip_entries es"

fun is_zip_event :: "event \<Rightarrow> bool" where
  "is_zip_event (ZipOpen p c) = True"
| "is_zip_event (ZipWrite p src arcname) = True"
| "is_zip_event (ZipClose p) = True"
| "is_zip_event e = False"

definition zip_events :: "event list \<Rightarrow> event list" where
  "zip_events es = filter is_zip_event es"

definition lies_under :: "string \<Rightarrow> string \<Rightarrow> bool" where
  \<comment> \<open>containment as the specification means it: the components of the root directory
      are the first components of the path (both absolute)\<close>
  "lies_under root_dir p =
     (let r = filter (\<lambda>x. x \<noteq> []) (split_on (CHR ''/'') (normpath root_dir));
          q = filter (\<lambda>x. x \<noteq> []) (split_on (CHR ''/'') (normpath p))
      in take (length r) q = r)"

section \<open>The examples\<close>

definition classic_options :: options where
  \<comment> \<open>the Classic game identity: neither \<^verbatim>\<open>fo4\<close> nor \<^verbatim>\<open>sse\<close>\<close>
  "classic_options =
     \<lparr>game_type = ''tesv'', bsarch_path = ''/tools/bsarch.exe'', temp_path = ''/tmp/pyro'',
      package_path = ''/out'', zip_output_path = ''/zips''\<rparr>"

definition scripts_disk :: disk where
  \<comment> \<open>two compiled scripts and one other file in \<^verbatim>\<open>/proj/src/Scripts\<close>\<close>
  "scripts_disk =
     \<lparr>files = [''/proj/src/Scripts/a.pex'', ''/proj/src/Scripts/b.pex'',
               ''/proj/src/Scripts/notes.txt''],
      dirs = [''/'', ''/proj'', ''/proj/src'', ''/proj/src/Scripts'', ''/tmp'', ''/out'',
              ''/zips''],
      denied = [],
      cwd = ''/proj''\<rparr>"

definition include_node_of :: "string option \<Rightarrow> string \<Rightarrow> include_node" where
  "include_node_of no_recurse txt = \<lparr>tag = ''Include'', NoRecurse = no_recurse, node_text = txt\<rparr>"

definition package_node_of :: "string \<Rightarrow> string \<Rightarrow> include_node list \<Rightarrow> decl_node" where
  "package_node_of n root_dir include_nodes =
     \<lparr>decl_tag = ''Package'', Name = n, RootDir = root_dir, Compression = None,
      children = include_nodes\<rparr>"

definition project_of :: "string \<Rightarrow> decl_node list \<Rightarrow> decl_node list \<Rightarrow> ppj" where
  "project_of n package_nodes zip_nodes =
     \<lparr>project_name = n, project_path = ''/proj'', packages_node = package_nodes,
      zip_files_node = zip_nodes, opts = classic_options\<rparr>"

definition scripts_project :: ppj where
  \<comment> \<open>the end-to-end scenario of the specification\<close>
  "scripts_project =
     project_of ''Foo''
       [package_node_of ''Foo'' ''/proj/src'' [include_node_of (Some ''True'') ''Scripts/*.pex'']]
       []"

definition deeper_root_project :: ppj where
  \<comment> \<open>the same files, reached by a pattern that begins with a wildcard\<close>
  "deeper_root_project =
     project_of ''Foo''
       [package_node_of ''Foo'' ''/proj/src/Scripts'' [include_node_of (Some ''True'') ''*.pex'']]
       []"

definition sibling_disk :: disk where
  \<comment> \<open>\<^verbatim>\<open>/proj/src2\<close> lies beside the root directory \<^verbatim>\<open>/proj/src\<close>\<close>
  "sibling_disk =
     \<lparr>files = [''/proj/src/a.txt'', ''/proj/src2/x''],
      dirs = [''/'', ''/proj'', ''/proj/src'', ''/proj/src2'', ''/zips''],
      denied = [],
      cwd = ''/proj''\<rparr>"

definition sibling_zip_project :: ppj where
  "sibling_zip_project =
     project_of ''Foo'' []
       [\<lparr>decl_tag = ''ZipFile'', Name = ''Foo'', RootDir = ''/proj/src'',
         Compression = Some ''store'',
         children = [include_node_of None ''/proj/src2/x'']\<rparr>]"

definition same_name_project :: ppj where
  \<comment> \<open>two packages named \<^verbatim>\<open>Foo\<close> in a project named \<^verbatim>\<open>MyMod\<close>\<close>
  "same_name_project =
     project_of ''MyMod''
       [package_node_of ''Foo'' ''/proj/src'' [], package_node_of ''Foo'' ''/proj/src'' []] []"

definition same_path_project :: ppj where
  \<comment> \<open>two packages whose names differ only by the extension of the game\<close>
  "same_path_project =
     project_of ''MyMod''
       [package_node_of ''Foo'' ''/proj/src'' [], package_node_of ''Foo.bsa'' ''/proj/src'' []] []"

definition readonly_disk :: disk where
  \<comment> \<open>an archive of an earlier run that cannot be opened for writing\<close>
  "readonly_disk =
     \<lparr>files = [''/out/Foo.bsa''],
      dirs = [''/'', ''/out''],
      denied = [''/out/Foo.bsa''],
      cwd = ''/''\<rparr>"

definition missing_root_node :: decl_node where
  \<comment> \<open>a zip node whose relative root directory does not exist\<close>
  "missing_root_node =
     \<lparr>decl_tag = ''ZipFile'', Name = ''First'', RootDir = ''missing'',
      Compression = None, children = [include_node_of None ''a.txt'']\<rparr>"

definition later_node :: decl_node where
  "later_node =
     \<lparr>decl_tag = ''ZipFile'', Name = ''Second'', RootDir = ''/proj/src'',
      Compression = None, children = [include_node_of None ''a.txt'']\<rparr>"

definition relative_root_project :: ppj where
  "relative_root_project = project_of ''Foo'' [] [missing_root_node, later_node]"

section \<open>Properties\<close>

subsection \<open>Strings and paths\<close>

lemma endswith_iff: "endswith s p \<longleftrightarrow> (\<exists>x. s = x @ p)"
  unfolding endswith_def
  by (metis append_eq_conv_conj append_take_drop_id diff_add_inverse2 length_append length_drop
      le_add2)

lemma rfind_split:
  assumes "c \<in> set s"
  shows "\<exists>a r. s = a @ c # r \<and> c \<notin> set r \<and> rfind c s = int (length a)"
proof -
  from assms obtain a r where s: "s = a @ c # r" and r: "c \<notin> set r"
    by (meson split_list_last)
  have "\<forall>x\<in>set (rev r). x \<noteq> c" using r by auto
  then have "takeWhile (\<lambda>x. x \<noteq> c) (rev r @ c # rev a)
      = rev r @ takeWhile (\<lambda>x. x \<noteq> c) (c # rev a)"
    by (intro takeWhile_append2) auto
  then have "takeWhile (\<lambda>x. x \<noteq> c) (rev s) = rev r"
    by (simp add: s)
  then have "rfind c s = int (length a)"
    using assms by (simp add: rfind_def s)
  with s r show ?thesis by blast
qed

lemma rfind_none: "c \<notin> set s \<Longrightarrow> rfind c s = - 1"
  by (simp add: rfind_def)

lemma rfind_lower: "- 1 \<le> rfind c s"
proof -
  have "length (takeWhile (\<lambda>x. x \<noteq> c) (rev s)) \<le> length s"
    using length_takeWhile_le [of _ "rev s"] by simp
  then show ?thesis by (simp add: rfind_def)
qed

lemma splitext_append: "splitext p = (a, b) \<Longrightarrow> a @ b = p"
  by (auto simp: splitext_def Let_def split: if_splits)

lemma splitext_ext:
  assumes "splitext p = (a, b)" and "b \<noteq> []"
  shows "\<exists>r. b = CHR ''.'' # r \<and> CHR ''.'' \<notin> set r"
proof -
  from assms have gt: "rfind (CHR ''.'') p > rfind (CHR ''/'') p"
    and b: "b = drop (nat (rfind (CHR ''.'') p)) p"
    by (auto simp: splitext_def Let_def split: if_splits)
  have "CHR ''.'' \<in> set p"
  proof (rule ccontr)
    assume "CHR ''.'' \<notin> set p"
    then have "rfind (CHR ''.'') p = - 1" by (rule rfind_none)
    with gt rfind_lower [of "CHR ''/''" p] show False by simp
  qed
  then obtain x r where "p = x @ CHR ''.'' # r" "CHR ''.'' \<notin> set r"
    "rfind (CHR ''.'') p = int (length x)"
    using rfind_split by blast
  then show ?thesis using b by simp
qed

lemma casefold_char_dot: "casefold_char c = CHR ''.'' \<longleftrightarrow> c = CHR ''.''"
  by (auto simp: casefold_char_def split: option.splits if_splits)

lemma last_occurrence_unique:
  "a @ c # r = x @ c # r' \<Longrightarrow> c \<notin> set r \<Longrightarrow> c \<notin> set r' \<Longrightarrow> a = x \<and> r = r'"
  by (auto simp: append_eq_append_conv2 append_eq_Cons_conv Cons_eq_append_conv)

lemma casefold_append: "casefold (a @ b) = casefold a @ casefold b"
  by (simp add: casefold_def)

lemma length_casefold: "length (casefold s) = length s"
  by (simp add: casefold_def)

text \<open>
  When the case-folded name ends with a dotted extension of three letters and
  \<^verbatim>\<open>splitext\<close> finds an extension at all, that extension is the last four characters.
\<close>

lemma casefold_ext_eq:
  assumes e: "e = CHR ''.'' # e'" "length e' = 3" "CHR ''.'' \<notin> set e'"
    and n: "endswith (casefold n) e"
    and sp: "splitext n = (a, b)" and b: "b \<noteq> []"
  shows "casefold b = e"
proof -
  from n obtain x where x: "casefold n = x @ e" by (auto simp: endswith_iff)
  define y where "y = drop (length x) n"
  define x' where "x' = take (length x) n"
  have n_eq: "n = x' @ y" by (simp add: x'_def y_def)
  have lx: "length x \<le> length n"
    using x length_casefold [of n] by (metis le_add1 length_append)
  have cy: "casefold y = e"
    using x lx unfolding y_def casefold_def by (simp add: drop_map [symmetric])
  from cy e obtain c r where y: "y = c # r" and c: "casefold_char c = CHR ''.''"
    and r: "casefold r = e'"
    by (cases y) (auto simp: casefold_def)
  have c': "c = CHR ''.''" using c by (simp add: casefold_char_dot)
  have nr: "CHR ''.'' \<notin> set r"
  proof
    assume "CHR ''.'' \<in> set r"
    then have "casefold_char (CHR ''.'') \<in> set (casefold r)" by (auto simp: casefold_def)
    then show False using r e(3) by (simp add: casefold_char_dot [THEN iffD2])
  qed
  from splitext_ext [OF sp b] obtain r' where b': "b = CHR ''.'' # r'"
    and nr': "CHR ''.'' \<notin> set r'" by blast
  have "a @ CHR ''.'' # r' = x' @ CHR ''.'' # r"
    using splitext_append [OF sp] n_eq y c' b' by simp
  from last_occurrence_unique [OF this nr' nr] have "r' = r" by simp
  then show ?thesis using b' r e c' by (simp add: casefold_def casefold_char_dot [THEN iffD2])
qed

subsection \<open>The state of a run\<close>

lemma world_log [simp]: "world (log l msg s) = world s"
  by (simp add: log_def emit_def)

lemma trace_log [simp]: "trace (log l msg s) = trace s @ [Log l msg]"
  by (simp add: log_def emit_def)

lemma world_effect [simp]: "world (effect e w s) = w"
  by (simp add: effect_def)

lemma trace_effect [simp]: "trace (effect e w s) = trace s @ [e]"
  by (simp add: effect_def)

lemma world_log_all [simp]: "world (log_all l msgs s) = world s"
  by (induction msgs arbitrary: s) simp_all

lemma trace_log_all [simp]: "trace (log_all l msgs s) = trace s @ map (Log l) msgs"
  by (induction msgs arbitrary: s) simp_all

lemma check_write_permission_Inr:
  "check_write_permission os p s = Inr s1 \<Longrightarrow> s1 = s"
  by (auto simp: check_write_permission_def split: option.splits if_splits)

lemma check_write_permission_Inl:
  assumes "check_write_permission os p s = Inl (a, s')"
  shows "exit_status a = 1" and "world s' = world s"
    and "zip_events (trace s') = zip_events (trace s)"
    and "a = SysExit 1 \<Longrightarrow> \<exists>msg. last (trace s') = Log Error msg"
  using assms
  by (auto simp: check_write_permission_def zip_events_def split: option.splits if_splits)

subsection \<open>The extension of a package\<close>

text \<open>
  C6. The extension fixer does what the specification says of it: a name whose extension
  (in the sense of \<^verbatim>\<open>os.path.splitext\<close>) is \<^verbatim>\<open>.bsa\<close> or \<^verbatim>\<open>.ba2\<close> in any mix of
  upper and lower case has that extension replaced by the extension of the game, and
  every other name has the extension of the game appended. For the game identity
  \<^verbatim>\<open>fo4\<close>, whose extension is \<^verbatim>\<open>.ba2\<close>, the name \<^verbatim>\<open>Foo.BSA\<close> becomes \<^verbatim>\<open>Foo.ba2\<close>.
  (A name such as \<^verbatim>\<open>.bsa\<close>, which is all leading dot and has no extension, falls under
  "appended" on both sides.)
\<close>

theorem fix_package_extension_replaces_or_appends:
  "fix_package_extension ops package_name = replace_archive_extension ops package_name
   \<and> fix_package_extension
        \<lparr>game_type = ''fo4'', bsarch_path = b, temp_path = t, package_path = p,
         zip_output_path = z\<rparr> ''Foo.BSA'' = ''Foo.ba2''"
proof
  show "fix_package_extension ops package_name = replace_archive_extension ops package_name"
  proof (cases "splitext package_name")
    case (Pair stem ext)
    show ?thesis
    proof (cases "endswith (casefold package_name) ''.ba2''
                  \<or> endswith (casefold package_name) ''.bsa''")
      case True
      show ?thesis
      proof (cases "ext = []")
        case True
        with Pair splitext_append [OF Pair] show ?thesis
          by (simp add: fix_package_extension_def replace_archive_extension_def casefold_def)
      next
        case False
        have a1: "endswith (casefold package_name) ''.ba2'' \<Longrightarrow> casefold ext = ''.ba2''"
          by (rule casefold_ext_eq [OF _ _ _ _ Pair False, of "''.ba2''" "''ba2''"]) simp_all
        have a2: "endswith (casefold package_name) ''.bsa'' \<Longrightarrow> casefold ext = ''.bsa''"
          by (rule casefold_ext_eq [OF _ _ _ _ Pair False, of "''.bsa''" "''bsa''"]) simp_all
        from True a1 a2 have "casefold ext = ''.ba2'' \<or> casefold ext = ''.bsa''"
          by blast
        with True Pair show ?thesis
          by (auto simp: fix_package_extension_def replace_archive_extension_def)
      qed
    next
      case False
      have "\<not> (casefold ext = ''.bsa'' \<or> casefold ext = ''.ba2'')"
      proof
        assume "casefold ext = ''.bsa'' \<or> casefold ext = ''.ba2''"
        moreover have "casefold package_name = casefold stem @ casefold ext"
          using splitext_append [OF Pair] casefold_append by metis
        ultimately show False using False by (auto simp: endswith_iff)
      qed
      with False Pair show ?thesis
        by (simp add: fix_package_extension_def replace_archive_extension_def)
    qed
  qed
next
  show "fix_package_extension
          \<lparr>game_type = ''fo4'', bsarch_path = b, temp_path = t, package_path = p,
           zip_output_path = z\<rparr> ''Foo.BSA'' = ''Foo.ba2''"
    by (simp add: fix_package_extension_def endswith_def casefold_def casefold_char_def
        pak_extension_def splitext_def rfind_def Let_def)
qed

subsection \<open>The write-permission check\<close>

text \<open>
  C9. \<^verbatim>\<open>_check_write_permission\<close> returns, leaving everything as it was, for every path
  that is not an existing file, whatever the state of the directory the path lies in
  (the file system and its answers are arbitrary here). When it ends the process, the
  path is an existing file, opening that file for appending failed, and the exit status
  is 1.
\<close>

theorem check_write_permission_only_stops_on_existing_file:
  "(\<not> isfile os (world s) file_path \<longrightarrow> check_write_permission os file_path s = Inr s)
   \<and> (\<forall>a s'. check_write_permission os file_path s = Inl (a, s') \<longrightarrow>
          isfile os (world s) file_path
          \<and> open_append os (world s) file_path \<noteq> None
          \<and> exit_status a = 1)"
  by (auto simp: check_write_permission_def split: option.splits if_splits)

theorem check_write_permission_only_stops_on_existing_file_witness:
  "\<not> isfile disk_os (world (start scripts_disk)) ''/nowhere/Foo.bsa''
   \<and> check_write_permission disk_os ''/nowhere/Foo.bsa'' (start scripts_disk)
       = Inr (start scripts_disk)
   \<and> check_write_permission disk_os ''/out/Foo.bsa'' (start readonly_disk)
       = Inl (SysExit 1,
              log Error (''Cannot create file without write permission to: ''
                         @ dquote ''/out/Foo.bsa'') (start readonly_disk))
   \<and> isfile disk_os (world (start readonly_disk)) ''/out/Foo.bsa''
   \<and> open_append disk_os (world (start readonly_disk)) ''/out/Foo.bsa'' \<noteq> None
   \<and> exit_status (SysExit 1) = 1"
proof -
  have h: "\<not> isfile disk_os (world (start scripts_disk)) ''/nowhere/Foo.bsa''"
    by code_simp
  have r1: "check_write_permission disk_os ''/nowhere/Foo.bsa'' (start scripts_disk)
      = Inr (start scripts_disk)"
    using check_write_permission_only_stops_on_existing_file
      [of disk_os "start scripts_disk" "''/nowhere/Foo.bsa''"] h
    by blast
  have stop: "check_write_permission disk_os ''/out/Foo.bsa'' (start readonly_disk)
      = Inl (SysExit 1,
             log Error (''Cannot create file without write permission to: ''
                        @ dquote ''/out/Foo.bsa'') (start readonly_disk))"
    by code_simp
  have r2: "isfile disk_os (world (start readonly_disk)) ''/out/Foo.bsa''
      \<and> open_append disk_os (world (start readonly_disk)) ''/out/Foo.bsa'' \<noteq> None
      \<and> exit_status (SysExit 1) = 1"
    using check_write_permission_only_stops_on_existing_file
      [of disk_os "start readonly_disk" "''/out/Foo.bsa''"] stop
    by blast
  from h r1 stop r2 show ?thesis by blast
qed

subsection \<open>The include resolver\<close>

text \<open>
  C4. As stated the claim fails: the resolver looks for the parent-directory marker at the
  start of the text an include node was written with, and nowhere else. The text
  \<^verbatim>\<open>a/../../x\<close> resolves to the root-relative path \<^verbatim>\<open>../x\<close>, which has a
  parent-directory segment, and the resolver yields one path for it and logs no warning.
\<close>

theorem parent_segment_inside_is_not_rejected:
  "pardir \<in> set (split_on (CHR ''/'') (normpath ''a/../../x''))
   \<and> include_paths disk_os scripts_disk (include_node_of None ''a/../../x'') ''/proj/src''
       = ([''/proj/src/../x''], [])"
  by code_simp

text \<open>
  C4, amended. For every include node whose text begins with the parent-directory marker
  \<^verbatim>\<open>..\<close>, in every file system and for every root directory, the resolver yields no
  path and logs exactly one warning.
\<close>

theorem leading_pardir_is_rejected:
  assumes "endswith (tag include_node) ''Include''"
    and "startswith (node_text include_node) pardir"
  shows "include_paths os w include_node root_path = ([], [pardir_warning])"
  using assms by (simp add: include_paths_def Let_def)

theorem leading_pardir_is_rejected_witness:
  "endswith (tag (include_node_of None ''../x'')) ''Include''
   \<and> startswith (node_text (include_node_of None ''../x'')) pardir
   \<and> include_paths disk_os scripts_disk (include_node_of None ''../x'') ''/proj/src''
       = ([], [''Include paths cannot start with '' @ dquote ''..''])"
proof -
  have h1: "endswith (tag (include_node_of None ''../x'')) ''Include''"
    by code_simp
  have h2: "startswith (node_text (include_node_of None ''../x'')) pardir"
    by code_simp
  have "include_paths disk_os scripts_disk (include_node_of None ''../x'') ''/proj/src''
      = ([], [pardir_warning])"
    by (rule leading_pardir_is_rejected [OF h1 h2])
  with h1 h2 show ?thesis by (simp add: pardir_warning_def pardir_def)
qed

text \<open>
  C5. Take an include node the resolver normalises, that is a node with the include tag
  whose text passed the parent-directory check, and let \<open>path_or_pattern\<close> be its
  normalised text. If that text has no wildcard and is relative, and its join with the
  root directory is not an existing directory, the resolver yields the joined path and
  nothing else, and logs no warning; whether a file exists at the path is not asked.
\<close>

theorem relative_file_path_is_yielded_as_is:
  assumes "endswith (tag include_node) ''Include''"
    and "\<not> startswith (node_text include_node) pardir"
    and "path_or_pattern = normpath (substitute_curdir root_path (node_text include_node))"
    and "CHR ''*'' \<notin> set path_or_pattern"
    and "\<not> isabs path_or_pattern"
    and "\<not> isdir os w (join root_path path_or_pattern)"
  shows "include_paths os w include_node root_path = ([join root_path path_or_pattern], [])"
  using assms by (simp add: include_paths_def Let_def)

theorem relative_file_path_is_yielded_as_is_witness:
  "endswith (tag (include_node_of None ''Scripts//missing.pex'')) ''Include''
   \<and> \<not> startswith (node_text (include_node_of None ''Scripts//missing.pex'')) pardir
   \<and> ''Scripts/missing.pex''
       = normpath (substitute_curdir ''/proj/src''
                     (node_text (include_node_of None ''Scripts//missing.pex'')))
   \<and> CHR ''*'' \<notin> set ''Scripts/missing.pex''
   \<and> \<not> isabs ''Scripts/missing.pex''
   \<and> \<not> isdir disk_os scripts_disk (join ''/proj/src'' ''Scripts/missing.pex'')
   \<and> \<not> isfile disk_os scripts_disk ''/proj/src/Scripts/missing.pex''
   \<and> include_paths disk_os scripts_disk (include_node_of None ''Scripts//missing.pex'')
         ''/proj/src''
       = ([''/proj/src/Scripts/missing.pex''], [])"
proof -
  have h1: "endswith (tag (include_node_of None ''Scripts//missing.pex'')) ''Include''"
    by code_simp
  have h2: "\<not> startswith (node_text (include_node_of None ''Scripts//missing.pex'')) pardir"
    by code_simp
  have h3: "''Scripts/missing.pex''
      = normpath (substitute_curdir ''/proj/src''
                    (node_text (include_node_of None ''Scripts//missing.pex'')))"
    by code_simp
  have h4: "CHR ''*'' \<notin> set ''Scripts/missing.pex''"
    by simp
  have h5: "\<not> isabs ''Scripts/missing.pex''"
    by code_simp
  have h6: "\<not> isdir disk_os scripts_disk (join ''/proj/src'' ''Scripts/missing.pex'')"
    by code_simp
  have h7: "\<not> isfile disk_os scripts_disk ''/proj/src/Scripts/missing.pex''"
    by code_simp
  have j: "join ''/proj/src'' ''Scripts/missing.pex'' = ''/proj/src/Scripts/missing.pex''"
    by code_simp
  have "include_paths disk_os scripts_disk (include_node_of None ''Scripts//missing.pex'')
          ''/proj/src''
      = ([join ''/proj/src'' ''Scripts/missing.pex''], [])"
    by (rule relative_file_path_is_yielded_as_is [OF h1 h2 h3 h4 h5 h6])
  with h1 h2 h3 h4 h5 h6 h7 j show ?thesis by simp
qed

text \<open>
  C1. The resolver tests containment of an absolute include by asking whether the root
  directory occurs in the path as a substring. With the root directory \<^verbatim>\<open>/proj/src\<close>
  and the include \<^verbatim>\<open>/proj/src2/x\<close>, an existing file in a sibling directory, the
  resolver yields the path, which does not lie under the root directory, and logs no
  warning.
\<close>

theorem sibling_prefix_path_is_yielded:
  "generate_include_paths disk_os sibling_disk [include_node_of None ''/proj/src2/x'']
       ''/proj/src''
     = ([''/proj/src2/x''], [])
   \<and> \<not> lies_under ''/proj/src'' ''/proj/src2/x''
   \<and> contains ''/proj/src'' ''/proj/src2/x''"
  by code_simp

text \<open>
  A pattern that begins with an ordinary character matches only names that begin with
  that character. A relative pattern is matched against whole paths; so when the scan
  finds absolute paths only, as it does below an absolute root directory, a relative
  pattern yields something only if it begins with a wildcard or a bracket.
\<close>

lemma fnmatch_first_character:
  assumes "fnmatch name (c # pat)"
    and "c \<noteq> CHR ''*''" and "c \<noteq> CHR ''?''" and "c \<noteq> CHR ''[''"
  shows "\<exists>rest. name = c # rest"
  using assms by (cases name) (simp_all add: fnmatch_def)

lemma relative_pattern_with_literal_start_yields_nothing:
  assumes inc: "endswith (tag include_node) ''Include''"
    and np: "\<not> startswith (node_text include_node) pardir"
    and p: "normpath (substitute_curdir root_path (node_text include_node)) = c # pat"
    and star: "CHR ''*'' \<in> set (c # pat)"
    and rel: "\<not> isabs (c # pat)"
    and lit: "c \<noteq> CHR ''*''" "c \<noteq> CHR ''?''" "c \<noteq> CHR ''[''"
    and found: "list_all (\<lambda>q. isabs q)
                  (iglob os w (join root_path
                                 (wildcard_pattern (NoRecurse include_node = Some ''True'')))
                     (NoRecurse include_node \<noteq> Some ''True''))"
  shows "include_paths os w include_node root_path = ([], [])"
proof -
  have c: "c \<noteq> CHR ''/''"
    using rel by (auto simp: isabs_def startswith_def sep_def)
  have "\<not> fnmatch q (c # pat)" if "isabs q" for q
  proof
    assume "fnmatch q (c # pat)"
    from fnmatch_first_character [OF this lit] obtain rest where "q = c # rest" by blast
    with that c show False by (simp add: isabs_def startswith_def sep_def)
  qed
  with found have "filter (\<lambda>q. isfile os w q \<and> fnmatch q (c # pat))
      (iglob os w (join root_path
                     (wildcard_pattern (NoRecurse include_node = Some ''True'')))
         (NoRecurse include_node \<noteq> Some ''True'')) = []"
    by (auto simp: filter_empty_conv list_all_iff)
  with inc np p star rel show ?thesis
    by (simp add: include_paths_def Let_def del: set_simps)
qed

subsection \<open>Packages\<close>

text \<open>
  C2. As stated the claim fails. The include \<^verbatim>\<open>Scripts/*.pex\<close> is a relative pattern, so
  the resolver scans \<^verbatim>\<open>/proj/src/*\<close>, without recursion the immediate children of the
  root directory, and keeps the regular files among them whose whole path matches the
  pattern. The only child is the folder \<^verbatim>\<open>Scripts\<close>; nothing is yielded and the two
  compiled scripts are not staged.
\<close>

theorem scripts_pattern_stages_two_files_counterexample:
  "set (staged (outcome_trace (create_packages disk_os scripts_project (start scripts_disk))))
   \<noteq> {(''/proj/src/Scripts/a.pex'', ''/tmp/pyro/Scripts/a.pex''),
       (''/proj/src/Scripts/b.pex'', ''/tmp/pyro/Scripts/b.pex'')}"
proof -
  have "staged (outcome_trace (create_packages disk_os scripts_project (start scripts_disk)))
      = []"
    by code_simp
  then show ?thesis by simp
qed

text \<open>
  C2, amended. In the scenario of the claim the resolver yields no path, no file is
  staged, and \<^verbatim>\<open>create_packages\<close> returns after it has invoked the archiver exactly once,
  with the archiver path and the arguments \<^verbatim>\<open>pack\<close>, the quoted staging folder, the
  quoted output path \<^verbatim>\<open>/out/Foo.bsa\<close> and \<^verbatim>\<open>-tes5\<close>.
\<close>

theorem scripts_pattern_stages_nothing:
  "include_paths disk_os scripts_disk (include_node_of (Some ''True'') ''Scripts/*.pex'')
       ''/proj/src'' = ([], [])
   \<and> returned (create_packages disk_os scripts_project (start scripts_disk))
   \<and> staged (outcome_trace (create_packages disk_os scripts_project (start scripts_disk))) = []
   \<and> archiver_calls
         (outcome_trace (create_packages disk_os scripts_project (start scripts_disk)))
       = [dquote ''/tools/bsarch.exe'' @ '' pack '' @ dquote ''/tmp/pyro'' @ '' ''
          @ dquote ''/out/Foo.bsa'' @ '' -tes5'']"
  by code_simp

text \<open>
  The staging the claim describes is what a pattern that begins with a wildcard
  produces: with the root directory \<^verbatim>\<open>/proj/src/Scripts\<close> and the include \<^verbatim>\<open>*.pex\<close> the
  two compiled scripts are staged under the \<^verbatim>\<open>Scripts\<close> folder of the staging tree (the
  layout fix), the other file is not, and the archiver is invoked once.
\<close>

lemma wildcard_first_pattern_stages_two_files:
  "returned (create_packages disk_os deeper_root_project (start scripts_disk))
   \<and> staged (outcome_trace (create_packages disk_os deeper_root_project (start scripts_disk)))
       = [(''/proj/src/Scripts/a.pex'', ''/tmp/pyro/Scripts/a.pex''),
          (''/proj/src/Scripts/b.pex'', ''/tmp/pyro/Scripts/b.pex'')]
   \<and> archiver_calls
         (outcome_trace (create_packages disk_os deeper_root_project (start scripts_disk)))
       = [dquote ''/tools/bsarch.exe'' @ '' pack '' @ dquote ''/tmp/pyro'' @ '' ''
          @ dquote ''/out/Foo.bsa'' @ '' -tes5'']"
  by code_simp

text \<open>
  On a name collision \<^verbatim>\<open>create_packages\<close> builds the new name from the name of the project
  and the index; \<^verbatim>\<open>create_zip\<close> builds it from the name of the node.
\<close>

lemma package_collision_name:
  "casefold (Name package_node) \<in> set package_names \<Longrightarrow>
   fst (package_file_name pj i package_names package_node)
     = project_name pj @ '' ('' @ str_of_nat i @ '')''"
  by (simp add: package_file_name_def Let_def)

lemma zip_collision_name:
  "casefold (Name zip_node) \<in> set zip_names \<Longrightarrow>
   fst (zip_file_name i zip_names zip_node)
     = Name zip_node @ '' ('' @ str_of_nat i @ '')''"
  by (simp add: zip_file_name_def Let_def)

text \<open>
  C3. In a project named \<^verbatim>\<open>MyMod\<close> with two package nodes named \<^verbatim>\<open>Foo\<close>, the second
  node gets the file name \<^verbatim>\<open>MyMod (1)\<close> before its extension is fixed, not
  \<^verbatim>\<open>Foo (1)\<close>, and the archiver is asked to write \<^verbatim>\<open>/out/MyMod (1).bsa\<close>.
\<close>

theorem second_package_is_named_after_the_project:
  "package_file_name same_name_project 1
       (snd (package_file_name same_name_project 0 [] (package_node_of ''Foo'' ''/proj/src'' [])))
       (package_node_of ''Foo'' ''/proj/src'' [])
     = (''MyMod (1)'', [''foo'', ''mymod (1)''])
   \<and> archiver_calls
         (outcome_trace (create_packages disk_os same_name_project (start scripts_disk)))
       = [dquote ''/tools/bsarch.exe'' @ '' pack '' @ dquote ''/tmp/pyro'' @ '' ''
          @ dquote ''/out/Foo.bsa'' @ '' -tes5'',
          dquote ''/tools/bsarch.exe'' @ '' pack '' @ dquote ''/tmp/pyro'' @ '' ''
          @ dquote ''/out/MyMod (1).bsa'' @ '' -tes5'']"
  by code_simp

text \<open>
  C10. The names \<^verbatim>\<open>Foo\<close> and \<^verbatim>\<open>Foo.bsa\<close> differ after case folding, so neither package
  node is renamed; under a game identity whose extension is \<^verbatim>\<open>.bsa\<close> both get the output
  path \<^verbatim>\<open>/out/Foo.bsa\<close>, and the run invokes the archiver twice with the same command,
  the second time on the path the first invocation wrote to.
\<close>

theorem distinct_names_share_one_output_path:
  "casefold ''Foo'' \<noteq> casefold ''Foo.bsa''
   \<and> package_file_name same_path_project 0 [] (package_node_of ''Foo'' ''/proj/src'' [])
       = (''Foo'', [''foo''])
   \<and> package_file_name same_path_project 1 [''foo'']
         (package_node_of ''Foo.bsa'' ''/proj/src'' [])
       = (''Foo.bsa'', [''foo'', ''foo.bsa''])
   \<and> join (package_path classic_options) (fix_package_extension classic_options ''Foo'')
       = ''/out/Foo.bsa''
   \<and> join (package_path classic_options) (fix_package_extension classic_options ''Foo.bsa'')
       = ''/out/Foo.bsa''
   \<and> returned (create_packages disk_os same_path_project (start scripts_disk))
   \<and> archiver_calls
         (outcome_trace (create_packages disk_os same_path_project (start scripts_disk)))
       = [dquote ''/tools/bsarch.exe'' @ '' pack '' @ dquote ''/tmp/pyro'' @ '' ''
          @ dquote ''/out/Foo.bsa'' @ '' -tes5'',
          dquote ''/tools/bsarch.exe'' @ '' pack '' @ dquote ''/tmp/pyro'' @ '' ''
          @ dquote ''/out/Foo.bsa'' @ '' -tes5'']"
  by code_simp

subsection \<open>Zip archives\<close>

lemma zip_entries_append: "zip_entries (xs @ ys) = zip_entries xs @ zip_entries ys"
  by (induction xs rule: zip_entries.induct) simp_all

lemma warnings_append: "warnings (xs @ ys) = warnings xs @ warnings ys"
  by (induction xs rule: warnings.induct) simp_all

lemma zip_entries_Log: "zip_entries (map (Log l) msgs) = []"
  by (induction msgs) simp_all

lemma warnings_Log_Warning: "warnings (map (Log Warning) msgs) = msgs"
  by (induction msgs) simp_all

text \<open>
  The second check of \<^verbatim>\<open>create_zip\<close> is the substring test again: a yielded path in
  which the root directory does not occur is logged, warned about and skipped. When
  this holds of every path the includes of a node yield, no entry is written, the file
  system is left as it was, and one warning is logged for each path.
\<close>

lemma zip_add_paths_skips:
  assumes "list_all (\<lambda>p. \<not> contains zip_root_path p) paths"
  shows "\<exists>s'. zip_add_paths os file_path compress zip_root_path paths s = Inr s'
           \<and> world s' = world s
           \<and> zip_entries (trace s') = zip_entries (trace s)
           \<and> warnings (trace s') = warnings (trace s) @ map outside_zip_warning paths"
  using assms
proof (induction paths arbitrary: s)
  case Nil
  then show ?case by simp
next
  case (Cons p paths)
  let ?s1 = "log Warning (outside_zip_warning p) (log Info (''+ '' @ dquote p) s)"
  from Cons.prems have p: "\<not> contains zip_root_path p"
    and rest: "list_all (\<lambda>p. \<not> contains zip_root_path p) paths"
    by simp_all
  from Cons.IH [OF rest, of ?s1] obtain s' where
    "zip_add_paths os file_path compress zip_root_path paths ?s1 = Inr s'"
    "world s' = world ?s1" "zip_entries (trace s') = zip_entries (trace ?s1)"
    "warnings (trace s') = warnings (trace ?s1) @ map outside_zip_warning paths"
    by blast
  with p show ?case
    by (simp add: Let_def zip_entries_append warnings_append)
qed

lemma zip_includes_skips:
  assumes "list_all (\<lambda>include_node.
              list_all (\<lambda>p. \<not> contains zip_root_path p)
                (fst (include_paths os (world s) include_node zip_root_path)))
            include_nodes"
  shows "\<exists>s'. zip_includes os file_path compress zip_root_path include_nodes s = Inr s'
           \<and> world s' = world s
           \<and> zip_entries (trace s') = zip_entries (trace s)
           \<and> warnings (trace s') =
               warnings (trace s)
               @ concat (map (\<lambda>include_node.
                           snd (include_paths os (world s) include_node zip_root_path)
                           @ map outside_zip_warning
                               (fst (include_paths os (world s) include_node zip_root_path)))
                         include_nodes)"
  using assms
proof (induction include_nodes arbitrary: s)
  case Nil
  then show ?case by simp
next
  case (Cons n ns)
  obtain paths ws where ip: "include_paths os (world s) n zip_root_path = (paths, ws)"
    by (cases "include_paths os (world s) n zip_root_path")
  from Cons.prems ip have out: "list_all (\<lambda>p. \<not> contains zip_root_path p) paths"
    by simp
  from zip_add_paths_skips [OF out, of os file_path compress "log_all Warning ws s"]
  obtain s1 where s1: "zip_add_paths os file_path compress zip_root_path paths
        (log_all Warning ws s) = Inr s1"
    and w1: "world s1 = world s"
    and e1: "zip_entries (trace s1) = zip_entries (trace s)"
    and g1: "warnings (trace s1) = warnings (trace s) @ ws @ map outside_zip_warning paths"
    by (auto simp: zip_entries_append warnings_append zip_entries_Log warnings_Log_Warning)
  from Cons.prems w1 have "list_all (\<lambda>include_node.
      list_all (\<lambda>p. \<not> contains zip_root_path p)
        (fst (include_paths os (world s1) include_node zip_root_path))) ns"
    by simp
  from Cons.IH [OF this] obtain s' where
    "zip_includes os file_path compress zip_root_path ns s1 = Inr s'"
    "world s' = world s1" "zip_entries (trace s') = zip_entries (trace s1)"
    "warnings (trace s') =
       warnings (trace s1)
       @ concat (map (\<lambda>include_node.
                   snd (include_paths os (world s1) include_node zip_root_path)
                   @ map outside_zip_warning
                       (fst (include_paths os (world s1) include_node zip_root_path))) ns)"
    by blast
  with ip s1 w1 e1 g1 show ?case by simp
qed

text \<open>
  C7. The file \<^verbatim>\<open>/proj/src2/x\<close> does not lie under the root directory \<^verbatim>\<open>/proj/src\<close> of
  the zip node, and it is the only file the includes of the node resolve to. The run
  returns, and it has written the file to the archive as the entry \<^verbatim>\<open>../src2/x\<close>
  without a warning.
\<close>

theorem sibling_prefix_file_is_archived:
  "\<not> lies_under ''/proj/src'' ''/proj/src2/x''
   \<and> returned (create_zip disk_os sibling_zip_project (start sibling_disk))
   \<and> zip_entries (outcome_trace (create_zip disk_os sibling_zip_project (start sibling_disk)))
       = [(''/proj/src2/x'', ''../src2/x'')]
   \<and> warnings (outcome_trace (create_zip disk_os sibling_zip_project (start sibling_disk)))
       = []"
  by code_simp

text \<open>
  C8. Let the loop of \<^verbatim>\<open>create_zip\<close> reach a zip node whose \<^verbatim>\<open>RootDir\<close> is relative
  and, joined to the directory of the project and normalised, is not an existing
  directory. Then the run ends there with exit status 1: no archive is opened, written
  or closed for this node or for a later one, and the file system is as it was. When
  the process ends by \<^verbatim>\<open>sys.exit\<close>, the last thing it did was to log an error; and
  unless the write-permission check of the node ended the run before, the exit is
  \<^verbatim>\<open>sys.exit(1)\<close> right after the error that names the unresolved root directory.
\<close>

theorem unresolvable_root_ends_the_run:
  assumes tagz: "endswith (decl_tag zip_node) ''ZipFile''"
    and rel: "\<not> isabs (RootDir zip_node)"
    and nodir: "\<not> isdir os (world s) (normpath (join (project_path pj) (RootDir zip_node)))"
  shows "\<exists>a s'. zip_loop os pj i zip_names (zip_node # rest) s = Inl (a, s')
           \<and> exit_status a = 1
           \<and> world s' = world s
           \<and> zip_events (trace s') = zip_events (trace s)
           \<and> (a = SysExit 1 \<longrightarrow> (\<exists>msg. last (trace s') = Log Error msg))
           \<and> (check_write_permission os
                  (join (zip_output_path (opts pj))
                     (fix_zip_extension (fst (zip_file_name i zip_names zip_node)))) s = Inr s
                \<longrightarrow> a = SysExit 1
                    \<and> trace s' = trace s
                         @ [Log Info (''Creating ''
                                      @ dquote (fix_zip_extension
                                                  (fst (zip_file_name i zip_names zip_node)))
                                      @ ''...''),
                            Log Error (unresolved_root_error (RootDir zip_node))])"
proof -
  obtain file_name0 zip_names' where
    zn: "zip_file_name i zip_names zip_node = (file_name0, zip_names')"
    by (cases "zip_file_name i zip_names zip_node")
  let ?file_path = "join (zip_output_path (opts pj)) (fix_zip_extension file_name0)"
  show ?thesis
  proof (cases "check_write_permission os ?file_path s")
    case (Inl x)
    obtain a s' where x: "x = (a, s')" by (cases x)
    from Inl x have c: "check_write_permission os ?file_path s = Inl (a, s')" by simp
    have "zip_loop os pj i zip_names (zip_node # rest) s = Inl (a, s')"
      using tagz zn c by (simp add: zip_declaration_def Let_def)
    with check_write_permission_Inl [OF c] zn c show ?thesis by auto
  next
    case (Inr s1)
    then have s1: "s1 = s" by (rule check_write_permission_Inr)
    let ?s2 = "log Info (''Creating '' @ dquote (fix_zip_extension file_name0) @ ''...'') s"
    have "resolve_root_dir os pj (world ?s2) (RootDir zip_node) = None"
      using rel nodir by (simp add: resolve_root_dir_def Let_def)
    then have "zip_loop os pj i zip_names (zip_node # rest) s
        = Inl (SysExit 1, log Error (unresolved_root_error (RootDir zip_node)) ?s2)"
      using tagz zn Inr s1 by (simp add: zip_declaration_def Let_def)
    then show ?thesis using zn
      by (simp add: zip_events_def)
  qed
qed

theorem unresolvable_root_ends_the_run_witness:
  "endswith (decl_tag missing_root_node) ''ZipFile''
   \<and> \<not> isabs (RootDir missing_root_node)
   \<and> \<not> isdir disk_os (world (start sibling_disk))
         (normpath (join (project_path relative_root_project) (RootDir missing_root_node)))
   \<and> (\<exists>a s'. zip_loop disk_os relative_root_project 0 [] [missing_root_node, later_node]
                 (start sibling_disk) = Inl (a, s')
          \<and> exit_status a = 1
          \<and> world s' = sibling_disk
          \<and> zip_events (trace s') = [])
   \<and> create_zip disk_os relative_root_project (start sibling_disk)
       = Inl (SysExit 1,
              \<lparr>world = sibling_disk,
               trace = [Log Info (''Creating '' @ dquote ''First.zip'' @ ''...''),
                        Log Error (''Cannot resolve RootDir path to existing folder: ''
                                   @ dquote ''missing'')]\<rparr>)"
proof -
  have h1: "endswith (decl_tag missing_root_node) ''ZipFile''"
    by code_simp
  have h2: "\<not> isabs (RootDir missing_root_node)"
    by code_simp
  have h3: "\<not> isdir disk_os (world (start sibling_disk))
      (normpath (join (project_path relative_root_project) (RootDir missing_root_node)))"
    by code_simp
  have t0: "zip_events (trace (start sibling_disk)) = []"
    and w0: "world (start sibling_disk) = sibling_disk"
    by (simp_all add: start_def zip_events_def)
  from unresolvable_root_ends_the_run
    [OF h1 h2 h3, of 0 "[]" "[later_node]"]
  obtain a s' where "zip_loop disk_os relative_root_project 0 [] [missing_root_node, later_node]
      (start sibling_disk) = Inl (a, s')"
    "exit_status a = 1" "world s' = world (start sibling_disk)"
    "zip_events (trace s') = zip_events (trace (start sibling_disk))"
    by blast
  then have e: "\<exists>a s'. zip_loop disk_os relative_root_project 0 [] [missing_root_node, later_node]
        (start sibling_disk) = Inl (a, s')
      \<and> exit_status a = 1 \<and> world s' = sibling_disk \<and> zip_events (trace s') = []"
    using t0 w0 by auto
  have r: "create_zip disk_os relative_root_project (start sibling_disk)
      = Inl (SysExit 1,
             \<lparr>world = sibling_disk,
              trace = [Log Info (''Creating '' @ dquote ''First.zip'' @ ''...''),
                       Log Error (''Cannot resolve RootDir path to existing folder: ''
                                  @ dquote ''missing'')]\<rparr>)"
    by code_simp
  from h1 h2 h3 e r show ?thesis by blast
qed

end
